theory Spec2Isabelle
  imports Main "HOL-Library.Word"
begin

unbundle bit_operations_syntax

section \<open>Floats as stored in \<open>array('d', ...)\<close>\<close>

text \<open>
  The components of a Vector live in an \<open>array\<close> of typecode \<open>'d'\<close>: IEEE-754 binary64
  values. A component is modelled by its 64 bits, so that the byte encoding, the comparison
  \<open>==\<close> (false on NaN, true between \<open>0.0\<close> and \<open>-0.0\<close>) and the tests \<open>< 0\<close> and
  \<open>bool\<close> are the ones Python applies to a float. Arithmetic on floats (\<open>math.hypot\<close>,
  \<open>math.atan2\<close>, \<open>*\<close>, \<open>-\<close>) is not computed: the functions of the \<open>math\<close> module are
  parameters of the operations that call them.
\<close>

type_synonym double = "64 word"
type_synonym byte = "8 word"

definition float_sign :: "double \<Rightarrow> bool" where
  "float_sign x = bit x 63"

definition float_exponent :: "double \<Rightarrow> nat" where
  "float_exponent x = unat (drop_bit 52 x AND 0x7FF)"

definition float_fraction :: "double \<Rightarrow> nat" where
  "float_fraction x = unat (x AND 0xFFFFFFFFFFFFF)"

definition is_nan :: "double \<Rightarrow> bool" where
  "is_nan x \<longleftrightarrow> float_exponent x = 2047 \<and> float_fraction x \<noteq> 0"

definition is_zero :: "double \<Rightarrow> bool" where
  "is_zero x \<longleftrightarrow> float_exponent x = 0 \<and> float_fraction x = 0"

text \<open>\<open>x == y\<close> on two floats.\<close>

definition float_eq :: "double \<Rightarrow> double \<Rightarrow> bool" where
  "float_eq x y \<longleftrightarrow> \<not> is_nan x \<and> \<not> is_nan y \<and> (x = y \<or> (is_zero x \<and> is_zero y))"

text \<open>\<open>x < 0\<close> on a float: false on NaN and on both zeros.\<close>

definition float_lt_zero :: "double \<Rightarrow> bool" where
  "float_lt_zero x \<longleftrightarrow> \<not> is_nan x \<and> \<not> is_zero x \<and> float_sign x"

text \<open>\<open>bool(x)\<close> on a float is \<open>x != 0.0\<close>; NaN is truthy.\<close>

definition float_bool :: "double \<Rightarrow> bool" where
  "float_bool x \<longleftrightarrow> \<not> is_zero x"

text \<open>
  The integer a finite float is exactly equal to, if any: Python compares a float with an
  int by value, without rounding the int. With biased exponent \<open>e\<close> and fraction \<open>f\<close> the
  magnitude is \<open>m * 2 ^ (k - 1075)\<close>, where \<open>m = f\<close>, \<open>k = 1\<close> for a subnormal and
  \<open>m = f + 2 ^ 52\<close>, \<open>k = e\<close> otherwise.
\<close>

definition float_int_value :: "double \<Rightarrow> int option" where
  "float_int_value x =
     (let e = float_exponent x; f = float_fraction x in
      if e = 2047 then None
      else
        let m = (if e = 0 then f else f + 2 ^ 52);
            k = (if e = 0 then 1 else e);
            sg = (if float_sign x then - 1 else 1 :: int)
        in if 1075 \<le> k then Some (sg * int (m * 2 ^ (k - 1075)))
           else if m mod 2 ^ (1075 - k) = 0 then Some (sg * int (m div 2 ^ (1075 - k)))
           else None)"

section \<open>Python values\<close>

datatype pyerr = TypeError | IndexError | ValueError | AttributeError

text \<open>Items of the built-in sequences a Vector is compared with.\<close>

datatype item = IFloat double | IInt int | IStr string | INone

text \<open>
  The classes of the notebook. \<open>Vector1\<close> to \<open>Vector4\<close> form one inheritance chain
  (\<open>vector3\<close>, the demonstration class without \<open>__setattr__\<close>, derives from \<open>Vector2\<close>);
  \<open>Vector\<close> is the final, self-contained class.
\<close>

datatype vclass = Vector1 | Vector2 | vector3 | Vector3 | Vector4 | Vector

record vector =
  cls :: vclass
  components :: "double list"

datatype pyval =
    PyItem item
  | PyTuple "item list"
  | PyList "item list"
  | PyArray "double list"
  | PyVector vector

text \<open>
  \<open>__init__\<close> stores \<open>array(self.typecode, components)\<close>. The argument is modelled where it
  is already a sequence of floats (an \<open>array('d')\<close> slice, a memoryview of format \<open>'d'\<close>,
  a list of floats): \<open>array\<close> then copies the items unchanged. \<open>c\<close> is the class called.
\<close>

definition Vector_init :: "vclass \<Rightarrow> double list \<Rightarrow> vector" where
  "Vector_init c xs = \<lparr>cls = c, components = xs\<rparr>"

text \<open>\<open>__len__\<close> is defined from \<open>Vector2\<close> on and in \<open>Vector\<close>; \<open>Vector1\<close> has none.\<close>

definition Vector_len :: "vector \<Rightarrow> nat" where
  "Vector_len v = length (components v)"

definition has_len :: "vclass \<Rightarrow> bool" where
  "has_len c \<longleftrightarrow> c \<noteq> Vector1"

text \<open>The built-in \<open>len(other)\<close>.\<close>

fun py_len :: "pyval \<Rightarrow> pyerr + nat" where
  "py_len (PyItem (IStr s)) = Inr (length s)"
| "py_len (PyItem _) = Inl TypeError"
| "py_len (PyTuple ys) = Inr (length ys)"
| "py_len (PyList ys) = Inr (length ys)"
| "py_len (PyArray xs) = Inr (length xs)"
| "py_len (PyVector w) = (if has_len (cls w) then Inr (Vector_len w) else Inl TypeError)"

text \<open>The items \<open>iter(other)\<close> yields; every Vector class has \<open>__iter__\<close>.\<close>

fun py_iter :: "pyval \<Rightarrow> pyerr + item list" where
  "py_iter (PyItem (IStr s)) = Inr (map (\<lambda>c. IStr [c]) s)"
| "py_iter (PyItem _) = Inl TypeError"
| "py_iter (PyTuple ys) = Inr ys"
| "py_iter (PyList ys) = Inr ys"
| "py_iter (PyArray xs) = Inr (map IFloat xs)"
| "py_iter (PyVector w) = Inr (map IFloat (components w))"

text \<open>\<open>a == b\<close> for a float \<open>a\<close> and an item \<open>b\<close>.\<close>

fun float_eq_item :: "double \<Rightarrow> item \<Rightarrow> bool" where
  "float_eq_item x (IFloat y) = float_eq x y"
| "float_eq_item x (IInt n) = (float_int_value x = Some n)"
| "float_eq_item x (IStr s) = False"
| "float_eq_item x INone = False"

section \<open>Equality and hashing\<close>

text \<open>
  \<^verbatim>\<open>
  def __eq__(self, other):
      return (len(self) == len(other) and
              all(a == b for a, b in zip(self, other)))
  \<close>
  The method of \<open>Vector4\<close> and of \<open>Vector\<close>. \<open>len(other)\<close> is evaluated before the
  comparison of the lengths, so a value without a length raises; \<open>zip\<close> is reached only when
  the lengths agree.
\<close>

definition Vector_eq :: "vector \<Rightarrow> pyval \<Rightarrow> pyerr + bool" where
  "Vector_eq self other =
     (case py_len other of
        Inl e \<Rightarrow> Inl e
      | Inr m \<Rightarrow>
          if Vector_len self \<noteq> m then Inr False
          else (case py_iter other of
                  Inl e \<Rightarrow> Inl e
                | Inr ys \<Rightarrow> Inr (list_all (\<lambda>(a, b). float_eq_item a b) (zip (components self) ys))))"

text \<open>Whether a value is an instance of one of the Vector classes.\<close>

fun is_Vector :: "pyval \<Rightarrow> bool" where
  "is_Vector (PyVector w) = True"
| "is_Vector _ = False"

text \<open>The items of a value that has both a length and an iterator.\<close>

definition sized_items :: "pyval \<Rightarrow> item list option" where
  "sized_items other =
     (case (py_len other, py_iter other) of
        (Inr m, Inr ys) \<Rightarrow> Some ys
      | _ \<Rightarrow> None)"

text \<open>Some floats: \<open>1.0\<close>, \<open>2.0\<close>, \<open>-2.0\<close>, \<open>-0.0\<close> and a quiet NaN.\<close>

definition f_one :: double where "f_one = 0x3FF0000000000000"
definition f_two :: double where "f_two = 0x4000000000000000"
definition f_minus_two :: double where "f_minus_two = 0xC000000000000000"
definition f_minus_zero :: double where "f_minus_zero = 0x8000000000000000"
definition f_nan :: double where "f_nan = 0x7FF8000000000000"

text \<open>
  \<^verbatim>\<open>
  def __hash__(self):
      hashes = (hash(x) for x in self)
      return functools.reduce(operator.xor, hashes, 0)
  \<close>
  \<open>h\<close> is the built-in \<open>hash\<close> on floats; Python's ints are unbounded, and so is the
  exclusive or.
\<close>

definition Vector_hash :: "(double \<Rightarrow> int) \<Rightarrow> vector \<Rightarrow> int" where
  "Vector_hash h self = foldl (XOR) 0 (map h (components self))"

text \<open>
  A hash on floats that agrees on equal floats, as the built-in one does: the bits of the
  float, and \<open>0\<close> for both zeros.
\<close>

definition bits_hash :: "double \<Rightarrow> int" where
  "bits_hash x = (if is_zero x then 0 else uint x)"

section \<open>Binary encoding\<close>

text \<open>\<open>typecode = 'd'\<close> is a class attribute; no class of the notebook overrides it.\<close>

definition typecode :: "vclass \<Rightarrow> char" where
  "typecode c = CHR ''d''"

text \<open>
  \<open>bytes(array)\<close> is the machine representation of the items: eight bytes per float, in the
  byte order of the platform.
\<close>

datatype byteorder = LittleEndian | BigEndian

fun split_le :: "nat \<Rightarrow> double \<Rightarrow> byte list" where
  "split_le 0 x = []"
| "split_le (Suc n) x = ucast x # split_le n (drop_bit 8 x)"

fun le_word :: "byte list \<Rightarrow> double" where
  "le_word [] = 0"
| "le_word (b # bs) = ucast b OR push_bit 8 (le_word bs)"

definition double_to_bytes :: "byteorder \<Rightarrow> double \<Rightarrow> byte list" where
  "double_to_bytes bo x =
     (case bo of LittleEndian \<Rightarrow> split_le 8 x | BigEndian \<Rightarrow> rev (split_le 8 x))"

definition bytes_to_double :: "byteorder \<Rightarrow> byte list \<Rightarrow> double" where
  "bytes_to_double bo bs =
     (case bo of LittleEndian \<Rightarrow> le_word bs | BigEndian \<Rightarrow> le_word (rev bs))"

definition array_tobytes :: "byteorder \<Rightarrow> double list \<Rightarrow> byte list" where
  "array_tobytes bo xs = concat (map (double_to_bytes bo) xs)"

text \<open>
  \<^verbatim>\<open>
  def __bytes__(self):
      return (bytes([ord(self.typecode)]) +
              bytes(self._components))
  \<close>
\<close>

definition Vector_bytes :: "byteorder \<Rightarrow> vector \<Rightarrow> byte list" where
  "Vector_bytes bo self =
     of_nat (of_char (typecode (cls self))) # array_tobytes bo (components self)"

text \<open>
  \<open>memoryview(b).cast('d')\<close> reads the buffer as items of eight bytes and raises TypeError
  when the length is not a multiple of the item size. \<open>unpack_doubles bo n bs\<close> are the
  first \<open>n\<close> items.
\<close>

fun unpack_doubles :: "byteorder \<Rightarrow> nat \<Rightarrow> byte list \<Rightarrow> double list" where
  "unpack_doubles bo 0 bs = []"
| "unpack_doubles bo (Suc n) bs = bytes_to_double bo (take 8 bs) # unpack_doubles bo n (drop 8 bs)"

text \<open>
  The platform: its byte order, and what \<open>memoryview.cast\<close> followed by \<open>array('d', ...)\<close>
  gives for a format character other than \<open>'d'\<close> (an error for a character that is not a
  native format, converted integers for the integer formats, whose sizes vary).
\<close>

record platform =
  byte_order :: byteorder
  cast_other :: "char \<Rightarrow> byte list \<Rightarrow> pyerr + double list"

text \<open>
  \<^verbatim>\<open>
  @classmethod
  def frombytes(cls, octets):
      typecode = chr(octets[0])
      memv = memoryview(octets[1:]).cast(typecode)
      return cls(memv)
  \<close>
  \<open>octets[0]\<close> raises IndexError on empty input.
\<close>

definition frombytes :: "platform \<Rightarrow> vclass \<Rightarrow> byte list \<Rightarrow> pyerr + vector" where
  "frombytes P c octets =
     (case octets of
        [] \<Rightarrow> Inl IndexError
      | t # payload \<Rightarrow>
          let tc = char_of (unat t) in
          if tc = CHR ''d'' then
            (if length payload mod 8 \<noteq> 0 then Inl TypeError
             else Inr (Vector_init c (unpack_doubles (byte_order P) (length payload div 8) payload)))
          else (case cast_other P tc payload of
                  Inl e \<Rightarrow> Inl e
                | Inr xs \<Rightarrow> Inr (Vector_init c xs)))"

text \<open>A little-endian platform on which every format but \<open>'d'\<close> is refused.\<close>

definition le_platform :: platform where
  "le_platform = \<lparr>byte_order = LittleEndian, cast_other = (\<lambda>tc bs. Inl ValueError)\<rparr>"

section \<open>Sequence view\<close>

text \<open>
  What can stand between the brackets of \<open>v[...]\<close>: an int, a bool (a subclass of int), a
  float, \<open>None\<close>, a str, a tuple (from \<open>v[1, 2]\<close>) or a slice whose parts are ints or
  absent.
\<close>

datatype key =
    KInt int
  | KBool bool
  | KFloat double
  | KNone
  | KStr string
  | KTuple "key list"
  | KSlice "int option" "int option" "int option"

text \<open>
  \<open>array\<close> normalises a slice as \<open>slice.indices(len)\<close> does: a negative bound counts from
  the end, and a bound out of range is clipped, to \<open>0\<close> and \<open>len\<close> for a positive step, to
  \<open>-1\<close> and \<open>len - 1\<close> for a negative one. An absent bound is the far end in the direction
  of the step. A step of zero raises ValueError.
\<close>

definition adjust_bound :: "int \<Rightarrow> int \<Rightarrow> int \<Rightarrow> int" where
  "adjust_bound len step b =
     (if b < 0 then (if b + len < 0 then (if step < 0 then - 1 else 0) else b + len)
      else if len \<le> b then (if step < 0 then len - 1 else len)
      else b)"

definition slice_indices ::
  "int option \<Rightarrow> int option \<Rightarrow> int option \<Rightarrow> nat \<Rightarrow> pyerr + (int \<times> int \<times> int)" where
  "slice_indices start stop step n =
     (let len = int n; st = (case step of None \<Rightarrow> 1 | Some s \<Rightarrow> s) in
      if st = 0 then Inl ValueError
      else Inr ((case start of None \<Rightarrow> (if st < 0 then len - 1 else 0) | Some b \<Rightarrow> adjust_bound len st b),
                (case stop of None \<Rightarrow> (if st < 0 then - 1 else len) | Some b \<Rightarrow> adjust_bound len st b),
                st))"

text \<open>The number of items of the normalised slice \<open>(a, z, st)\<close>.\<close>

definition slice_length :: "int \<Rightarrow> int \<Rightarrow> int \<Rightarrow> nat" where
  "slice_length a z st =
     (if st < 0 then (if z < a then nat ((a - z - 1) div (- st) + 1) else 0)
      else (if a < z then nat ((z - a - 1) div st + 1) else 0))"

text \<open>The copying loop for a step other than one: \<open>k\<close> items, from \<open>cur\<close> on, \<open>st\<close> apart.\<close>

fun slice_items :: "'a list \<Rightarrow> int \<Rightarrow> int \<Rightarrow> nat \<Rightarrow> 'a list" where
  "slice_items xs cur st 0 = []"
| "slice_items xs cur st (Suc k) = xs ! nat cur # slice_items xs (cur + st) st k"

text \<open>\<open>xs[start:stop:step]\<close> on an array or a str.\<close>

definition seq_getslice ::
  "'a list \<Rightarrow> int option \<Rightarrow> int option \<Rightarrow> int option \<Rightarrow> pyerr + 'a list" where
  "seq_getslice xs start stop step =
     (case slice_indices start stop step (length xs) of
        Inl e \<Rightarrow> Inl e
      | Inr (a, z, st) \<Rightarrow>
          Inr (let k = slice_length a z st in
               if k = 0 then []
               else if st = 1 then take k (drop (nat a) xs)
               else slice_items xs a st k))"

text \<open>\<open>xs[i]\<close> on an array: a negative index counts from the end.\<close>

definition seq_getitem :: "'a list \<Rightarrow> int \<Rightarrow> pyerr + 'a" where
  "seq_getitem xs i =
     (let n = int (length xs); j = (if i < 0 then i + n else i) in
      if j < 0 \<or> n \<le> j then Inl IndexError else Inr (xs ! nat j))"

text \<open>\<open>operator.index(key)\<close>: the value of an int, TypeError for anything without \<open>__index__\<close>.\<close>

fun operator_index :: "key \<Rightarrow> pyerr + int" where
  "operator_index (KInt i) = Inr i"
| "operator_index (KBool b) = Inr (if b then 1 else 0)"
| "operator_index (KFloat x) = Inl TypeError"
| "operator_index KNone = Inl TypeError"
| "operator_index (KStr s) = Inl TypeError"
| "operator_index (KTuple ks) = Inl TypeError"
| "operator_index (KSlice a b c) = Inl TypeError"

text \<open>
  \<^verbatim>\<open>
  def __getitem__(self, key):
      if isinstance(key, slice):
          cls = type(self)
          return cls(self._components[key])
      index = operator.index(key)
      return self._components[index]
  \<close>
  The method of \<open>Vector2\<close>, inherited down to \<open>Vector4\<close>, and of \<open>Vector\<close>.
\<close>

datatype getitem_result = AVector vector | AFloat double

definition Vector_getitem :: "vector \<Rightarrow> key \<Rightarrow> pyerr + getitem_result" where
  "Vector_getitem self key =
     (case key of
        KSlice a b c \<Rightarrow>
          (case seq_getslice (components self) a b c of
             Inl e \<Rightarrow> Inl e
           | Inr xs \<Rightarrow> Inr (AVector (Vector_init (cls self) xs)))
      | _ \<Rightarrow>
          (case operator_index key of
             Inl e \<Rightarrow> Inl e
           | Inr index \<Rightarrow>
               (case seq_getitem (components self) index of
                  Inl e \<Rightarrow> Inl e
                | Inr x \<Rightarrow> Inr (AFloat x))))"

text \<open>
  The indices a slice selects, as the specification has them: those of
  \<open>range(a, z, st)\<close> for the normalised slice.
\<close>

function py_range :: "int \<Rightarrow> int \<Rightarrow> int \<Rightarrow> int list" where
  "py_range a z st =
     (if (0 < st \<and> a < z) \<or> (st < 0 \<and> z < a) then a # py_range (a + st) z st else [])"
  by pat_completeness auto
termination
  by (relation "measure (\<lambda>(a, z, st). nat (if 0 < st then z - a else a - z))") auto

declare py_range.simps [simp del]

section \<open>Magnitude, truth value and angles\<close>

text \<open>
  The functions of the \<open>math\<close> module and the float arithmetic the methods use. On floats
  none of them raises.
\<close>

record mathlib =
  m_hypot :: "double list \<Rightarrow> double"
  m_atan2 :: "double \<Rightarrow> double \<Rightarrow> double"
  m_pi :: double
  f_mul :: "double \<Rightarrow> double \<Rightarrow> double"
  f_sub :: "double \<Rightarrow> double \<Rightarrow> double"

text \<open>
  \<^verbatim>\<open>
  def __abs__(self):
      return math.hypot(*self)

  def __bool__(self):
      return bool(abs(self))
  \<close>
\<close>

definition Vector_abs :: "mathlib \<Rightarrow> vector \<Rightarrow> double" where
  "Vector_abs M self = m_hypot M (components self)"

definition Vector_bool :: "mathlib \<Rightarrow> vector \<Rightarrow> bool" where
  "Vector_bool M self = float_bool (Vector_abs M self)"

text \<open>
  What the library guarantees of \<open>math.hypot\<close> and \<open>__bool__\<close> relies on: the norm is a zero
  exactly when every argument is one (no underflow to zero; a NaN or an infinity gives a NaN
  or an infinity).
\<close>

definition hypot_zero_iff :: "mathlib \<Rightarrow> bool" where
  "hypot_zero_iff M \<longleftrightarrow> (\<forall>xs. is_zero (m_hypot M xs) \<longleftrightarrow> (\<forall>x\<in>set xs. is_zero x))"

text \<open>
  \<^verbatim>\<open>
  def angle(self, n):
      r = math.hypot(*self[n:])
      a = math.atan2(r, self[n-1])
      if (n == len(self) - 1) and (self[-1] < 0):
          return math.pi * 2 - a
      else:
          return a
  \<close>
  \<open>self[n:]\<close> and \<open>self[n-1]\<close> go through \<open>__getitem__\<close>. Unpacking a float, or passing a
  Vector where \<open>math\<close> or \<open><\<close> wants a number, would raise TypeError.
\<close>

definition unpack_vector :: "pyerr + getitem_result \<Rightarrow> pyerr + double list" where
  "unpack_vector r =
     (case r of Inl e \<Rightarrow> Inl e | Inr (AVector w) \<Rightarrow> Inr (components w) | Inr (AFloat x) \<Rightarrow> Inl TypeError)"

definition as_float :: "pyerr + getitem_result \<Rightarrow> pyerr + double" where
  "as_float r =
     (case r of Inl e \<Rightarrow> Inl e | Inr (AFloat x) \<Rightarrow> Inr x | Inr (AVector w) \<Rightarrow> Inl TypeError)"

definition angle :: "mathlib \<Rightarrow> vector \<Rightarrow> int \<Rightarrow> pyerr + double" where
  "angle M self n =
     (case unpack_vector (Vector_getitem self (KSlice (Some n) None None)) of
        Inl e \<Rightarrow> Inl e
      | Inr tail \<Rightarrow>
          let r = m_hypot M tail in
          (case as_float (Vector_getitem self (KInt (n - 1))) of
             Inl e \<Rightarrow> Inl e
           | Inr c \<Rightarrow>
               let a = m_atan2 M r c in
               if n = int (Vector_len self) - 1 then
                 (case as_float (Vector_getitem self (KInt (- 1))) of
                    Inl e \<Rightarrow> Inl e
                  | Inr l \<Rightarrow>
                      if float_lt_zero l then Inr (f_sub M (f_mul M (m_pi M) f_two) a)
                      else Inr a)
               else Inr a))"

text \<open>
  \<^verbatim>\<open>
  def angles(self):
      return (self.angle(n) for n in range(1, len(self)))
  \<close>
  A generator: each item is computed, and may raise, when it is asked for.
\<close>

definition angles :: "mathlib \<Rightarrow> vector \<Rightarrow> (pyerr + double) list" where
  "angles M self = map (\<lambda>n. angle M self (int n)) [1..<Vector_len self]"

text \<open>
  The angle of the specification: the arctangent of the magnitude of the components from
  \<open>k\<close> on and component \<open>k - 1\<close>, taken from \<open>2\<pi>\<close> on the last axis when the last component
  is negative.
\<close>

definition hyperspherical_angle :: "mathlib \<Rightarrow> double list \<Rightarrow> nat \<Rightarrow> double" where
  "hyperspherical_angle M xs k =
     (let a = m_atan2 M (m_hypot M (drop k xs)) (xs ! (k - 1)) in
      if k = length xs - 1 \<and> float_lt_zero (last xs)
      then f_sub M (f_mul M (m_pi M) f_two) a
      else a)"

text \<open>
  A table of values of the library, for the examples: \<open>hypot(1.0, 1.0) = 1.4142135623730951\<close>,
  \<open>hypot(2.0, -2.0) = 2.8284271247461903\<close>, \<open>atan2(1.0, 1.0) = atan2(2.0, 2.0) =
  0.7853981633974483\<close>, \<open>atan2(2.8284271247461903, 1.0) = 1.2309594173407747\<close>,
  \<open>math.pi * 2 = 6.283185307179586\<close> and \<open>math.pi * 2 - 0.7853981633974483 =
  5.497787143782138\<close>. Off the table the entries are arbitrary, but the norm stays a zero
  exactly on zeros.
\<close>

definition f_sqrt2 :: double where "f_sqrt2 = 0x3FF6A09E667F3BCD"
definition f_two_sqrt2 :: double where "f_two_sqrt2 = 0x4006A09E667F3BCD"
definition f_quarter_pi :: double where "f_quarter_pi = 0x3FE921FB54442D18"
definition f_atan_two_sqrt2 :: double where "f_atan_two_sqrt2 = 0x3FF3B2028082E8D4"
definition f_pi :: double where "f_pi = 0x400921FB54442D18"
definition f_two_pi :: double where "f_two_pi = 0x401921FB54442D18"
definition f_seven_quarter_pi :: double where "f_seven_quarter_pi = 0x4015FDBBE9BBA775"

definition sample_math :: mathlib where
  "sample_math =
     \<lparr>m_hypot = (\<lambda>xs. if list_all is_zero xs then 0
                        else if xs = [f_one, f_one] then f_sqrt2
                        else if xs = [f_two, f_minus_two] then f_two_sqrt2
                        else if xs = [f_minus_two] then f_two
                        else f_one),
      m_atan2 = (\<lambda>y x. if y = f_two_sqrt2 \<and> x = f_one then f_atan_two_sqrt2 else f_quarter_pi),
      m_pi = f_pi,
      f_mul = (\<lambda>x y. if x = f_pi \<and> y = f_two then f_two_pi else x),
      f_sub = (\<lambda>x y. if x = f_two_pi \<and> y = f_quarter_pi then f_seven_quarter_pi else x)\<rparr>"

section \<open>Formatting\<close>

text \<open>Consuming a generator: the items in order, up to the first one that raises.\<close>

fun collect :: "(pyerr + 'a) list \<Rightarrow> pyerr + 'a list" where
  "collect [] = Inr []"
| "collect (Inl e # rs) = Inl e"
| "collect (Inr x # rs) = (case collect rs of Inl e \<Rightarrow> Inl e | Inr xs \<Rightarrow> Inr (x # xs))"

text \<open>\<open>sep.join(pieces)\<close>.\<close>

fun str_join :: "string \<Rightarrow> string list \<Rightarrow> string" where
  "str_join sep [] = []"
| "str_join sep [s] = s"
| "str_join sep (s # t # ts) = s @ sep @ str_join sep (t # ts)"

text \<open>\<open>s.endswith(t)\<close>.\<close>

definition str_endswith :: "string \<Rightarrow> string \<Rightarrow> bool" where
  "str_endswith s t \<longleftrightarrow> length t \<le> length s \<and> drop (length s - length t) s = t"

text \<open>
  \<^verbatim>\<open>
  def __format__(self, fmt_spec=''):
      if fmt_spec.endswith('h'):  # hyperspherical coordinates
          fmt_spec = fmt_spec[:-1]
          coords = itertools.chain([abs(self)], self.angles())
          outer_fmt = '<{}>'
      else:
          coords = self
          outer_fmt = '({})'
      components = (format(c, fmt_spec) for c in coords)
      return outer_fmt.format(', '.join(components))
  \<close>
  \<open>F\<close> is the built-in \<open>format\<close> on a float; it raises ValueError on a format
  specification that floats do not have. \<open>fmt_spec[:-1]\<close> drops the last character.
\<close>

definition Vector_format ::
  "mathlib \<Rightarrow> (double \<Rightarrow> string \<Rightarrow> pyerr + string) \<Rightarrow> vector \<Rightarrow> string \<Rightarrow> pyerr + string" where
  "Vector_format M F self fmt_spec =
     (let hyper = str_endswith fmt_spec ''h'';
          spec = (if hyper then butlast fmt_spec else fmt_spec);
          coords = (if hyper then Inr (Vector_abs M self) # angles M self
                    else map Inr (components self));
          outer_l = (if hyper then ''<'' else ''('');
          outer_r = (if hyper then ''>'' else '')'');
          components = map (\<lambda>c. case c of Inl e \<Rightarrow> Inl e | Inr x \<Rightarrow> F x spec) coords
      in case collect components of
           Inl e \<Rightarrow> Inl e
         | Inr pieces \<Rightarrow> Inr (outer_l @ str_join '', '' pieces @ outer_r))"

text \<open>A stand-in for \<open>format\<close> with the values of the example of the specification.\<close>

definition sample_format :: "double \<Rightarrow> string \<Rightarrow> pyerr + string" where
  "sample_format x spec =
     (if spec \<noteq> ''.3f'' then Inl ValueError
      else if x = f_sqrt2 then Inr ''1.414''
      else if x = f_quarter_pi then Inr ''0.785''
      else if x = f_one then Inr ''1.000''
      else Inl ValueError)"

section \<open>Debug representation\<close>

text \<open>
  \<open>reprlib.repr\<close> on an array, modelled from the Python standard library (the methods
  \<open>repr_array\<close> and \<open>repr_instance\<close> of \<open>reprlib.Repr\<close>) with the limits of its default instance:
  at most \<open>maxarray = 5\<close> items, then \<open>'...'\<close>; the \<open>repr\<close> of an item (a float has no
  method of its own in \<open>Repr\<close>) is cut in the middle when longer than \<open>maxother = 30\<close>.
  \<open>R\<close> is the built-in \<open>repr\<close> on a float.
\<close>

definition maxarray :: nat where "maxarray = 5"
definition maxother :: nat where "maxother = 30"
definition fillvalue :: string where "fillvalue = ''...''"

definition repr_instance :: "string \<Rightarrow> string" where
  "repr_instance s =
     (if maxother < length s then
        (let i = (maxother - 3) div 2; j = maxother - 3 - i
         in take i s @ fillvalue @ drop (length s - j) s)
      else s)"

definition repr_array :: "(double \<Rightarrow> string) \<Rightarrow> char \<Rightarrow> double list \<Rightarrow> string" where
  "repr_array R tc xs =
     (if xs = [] then ''array('' @ [CHR 0x27, tc, CHR 0x27] @ '')''
      else
        (let header = ''array('' @ [CHR 0x27, tc, CHR 0x27] @ '', ['';
             pieces = map (\<lambda>x. repr_instance (R x)) (take maxarray xs) @
                      (if maxarray < length xs then [fillvalue] else [])
         in header @ str_join '', '' pieces @ ''])''))"

text \<open>\<open>s.find(c)\<close>: the first index of \<open>c\<close>, or \<open>-1\<close>.\<close>

fun str_find :: "string \<Rightarrow> char \<Rightarrow> int" where
  "str_find [] c = - 1"
| "str_find (x # xs) c =
     (if x = c then 0 else (let r = str_find xs c in if r < 0 then - 1 else r + 1))"

text \<open>
  \<^verbatim>\<open>
  def __repr__(self):
      components = reprlib.repr(self._components)
      components = components[components.find('['):-1]
      return f'Vector({components})'
  \<close>
\<close>

definition Vector_repr :: "(double \<Rightarrow> string) \<Rightarrow> vector \<Rightarrow> pyerr + string" where
  "Vector_repr R self =
     (let components = repr_array R (typecode (cls self)) (components self) in
      case seq_getslice components (Some (str_find components CHR ''['')) (Some (- 1)) None of
        Inl e \<Rightarrow> Inl e
      | Inr components \<Rightarrow> Inr (''Vector('' @ components @ '')''))"

text \<open>A stand-in for \<open>repr\<close> on floats, for the examples.\<close>

definition sample_repr :: "double \<Rightarrow> string" where
  "sample_repr x = (if x = 0 then ''0.0'' else if x = f_one then ''1.0'' else if x = f_two then ''2.0'' else ''nan'')"

section \<open>Attribute assignment\<close>

text \<open>
  An instance with its \<open>__dict__\<close>: \<open>__init__\<close> binds \<open>_components\<close> there, through the
  \<open>__setattr__\<close> of the class. Attribute names are ASCII strings.
\<close>

record pyobject =
  obj_cls :: vclass
  obj_dict :: "string \<rightharpoonup> pyval"

definition match_args :: "string list" where
  "match_args = [''x'', ''y'', ''z'', ''t'']"

definition char_islower :: "char \<Rightarrow> bool" where
  "char_islower c \<longleftrightarrow> 97 \<le> (of_char c :: nat) \<and> (of_char c :: nat) \<le> 122"

definition char_isupper :: "char \<Rightarrow> bool" where
  "char_isupper c \<longleftrightarrow> 65 \<le> (of_char c :: nat) \<and> (of_char c :: nat) \<le> 90"

text \<open>\<open>s.islower()\<close>: some cased character, and no cased character in upper case.\<close>

definition str_islower :: "string \<Rightarrow> bool" where
  "str_islower s \<longleftrightarrow> list_ex char_islower s \<and> \<not> list_ex char_isupper s"

text \<open>\<open>object.__setattr__\<close>: the name is bound in the instance's \<open>__dict__\<close>.\<close>

definition object_setattr :: "pyobject \<Rightarrow> string \<Rightarrow> pyval \<Rightarrow> pyerr option \<times> pyobject" where
  "object_setattr self name val = (None, self\<lparr>obj_dict := (obj_dict self)(name \<mapsto> val)\<rparr>)"

text \<open>
  \<^verbatim>\<open>
  def __setattr__(self, name, value):
      cls = type(self)
      if len(name) == 1:
          if name in cls.__match_args__:
              error = 'readonly attribute {attr_name!r}'
          elif name.islower():
              error = "can't set attributes 'a' to 'z' in {cls_name!r}"
          else:
              error = ''
          if error:
              msg = error.format(cls_name=cls.__name__, attr_name=name)
              raise AttributeError(msg)
      super().__setattr__(name, value)
  \<close>
  The method of \<open>Vector3\<close>. The result is the exception raised, if any, and the instance
  afterwards.
\<close>

datatype setattr_error = Readonly_attribute | Cannot_set_a_to_z | No_error

definition Vector3_setattr :: "pyobject \<Rightarrow> string \<Rightarrow> pyval \<Rightarrow> pyerr option \<times> pyobject" where
  "Vector3_setattr self name val =
     (if length name = 1 then
        (let error = (if name \<in> set match_args then Readonly_attribute
                      else if str_islower name then Cannot_set_a_to_z
                      else No_error)
         in if error \<noteq> No_error then (Some AttributeError, self)
            else object_setattr self name val)
      else object_setattr self name val)"

text \<open>
  \<open>obj.name = value\<close>: \<open>Vector3\<close> defines \<open>__setattr__\<close> and \<open>Vector4\<close> inherits it; \<open>Vector1\<close>,
  \<open>Vector2\<close>, \<open>vector3\<close> and the final \<open>Vector\<close> define none and fall back on \<open>object\<close>.
\<close>

definition py_setattr :: "pyobject \<Rightarrow> string \<Rightarrow> pyval \<Rightarrow> pyerr option \<times> pyobject" where
  "py_setattr self name val =
     (if obj_cls self = Vector3 \<or> obj_cls self = Vector4 then Vector3_setattr self name val
      else object_setattr self name val)"

text \<open>
  \<open>cls(components)\<close> at the level of the instance: \<open>__init__\<close> assigns \<open>self._components\<close>.
\<close>

definition new_object :: "vclass \<Rightarrow> double list \<Rightarrow> pyobject" where
  "new_object c xs =
     snd (py_setattr \<lparr>obj_cls = c, obj_dict = Map.empty\<rparr> ''_components'' (PyArray xs))"

section \<open>Properties\<close>

subsection \<open>Facts about floats\<close>

lemma float_eq_refl: "\<not> is_nan x \<Longrightarrow> float_eq x x"
  by (simp add: float_eq_def)

lemma float_eq_nan: "is_nan x \<Longrightarrow> \<not> float_eq x y \<and> \<not> float_eq y x"
  by (simp add: float_eq_def)

lemma float_eq_sym: "float_eq x y \<Longrightarrow> float_eq y x"
  by (auto simp add: float_eq_def)

lemma f_one_parts: "float_exponent f_one = 1023" "float_fraction f_one = 0" "\<not> float_sign f_one"
  by (simp_all add: f_one_def float_exponent_def float_fraction_def float_sign_def bit_simps)

lemma f_two_parts: "float_exponent f_two = 1024" "float_fraction f_two = 0" "\<not> float_sign f_two"
  by (simp_all add: f_two_def float_exponent_def float_fraction_def float_sign_def bit_simps)

lemma f_nan_parts: "float_exponent f_nan = 2047" "float_fraction f_nan = 2 ^ 51"
  by (simp_all add: f_nan_def float_exponent_def float_fraction_def)

lemma is_nan_f_nan: "is_nan f_nan"
  by (simp add: is_nan_def f_nan_parts)

lemma not_nan_f_one: "\<not> is_nan f_one"
  by (simp add: is_nan_def f_one_parts)

lemma not_nan_f_two: "\<not> is_nan f_two"
  by (simp add: is_nan_def f_two_parts)

lemma float_consts_zero:
  "\<not> is_zero f_one" "\<not> is_zero f_two" "\<not> is_zero f_minus_two" "\<not> is_zero f_nan"
  "\<not> is_zero f_sqrt2" "\<not> is_zero f_two_sqrt2" "\<not> is_zero f_quarter_pi"
  "is_zero f_minus_zero" "is_zero 0"
  by (simp_all add: is_zero_def float_exponent_def float_fraction_def f_one_def f_two_def
      f_minus_two_def f_nan_def f_sqrt2_def f_two_sqrt2_def f_quarter_pi_def f_minus_zero_def)

lemma float_consts_distinct:
  "f_sqrt2 \<noteq> f_quarter_pi" "f_quarter_pi \<noteq> f_sqrt2" "f_one \<noteq> f_sqrt2" "f_one \<noteq> f_quarter_pi"
  "f_two \<noteq> f_one" "f_one \<noteq> f_two" "f_minus_two \<noteq> f_one" "f_minus_two \<noteq> f_two"
  "f_two \<noteq> f_two_sqrt2" "f_one \<noteq> f_two_sqrt2" "f_one \<noteq> 0" "f_two \<noteq> 0"
  "f_one \<noteq> f_minus_two" "f_two \<noteq> f_minus_two"
  by (simp_all add: f_one_def f_two_def f_minus_two_def f_sqrt2_def f_two_sqrt2_def
      f_quarter_pi_def)

lemma sample_math_values:
  "m_hypot sample_math [f_one, f_one] = f_sqrt2"
  "m_hypot sample_math [f_one] = f_one"
  "m_hypot sample_math [f_minus_two] = f_two"
  "m_hypot sample_math [f_two, f_minus_two] = f_two_sqrt2"
  "m_atan2 sample_math f_one f_one = f_quarter_pi"
  "m_atan2 sample_math f_two f_two = f_quarter_pi"
  "m_atan2 sample_math f_two_sqrt2 f_one = f_atan_two_sqrt2"
  "f_sub sample_math (f_mul sample_math (m_pi sample_math) f_two) f_quarter_pi = f_seven_quarter_pi"
  by (simp_all add: sample_math_def float_consts_zero float_consts_distinct)

lemma float_consts_nan:
  "\<not> is_nan f_one" "\<not> is_nan f_two" "\<not> is_nan f_minus_two" "is_nan f_nan"
  "\<not> is_nan f_sqrt2" "\<not> is_nan f_quarter_pi" "\<not> is_nan f_minus_zero" "\<not> is_nan 0"
  by (simp_all add: is_nan_def float_exponent_def float_fraction_def f_one_def f_two_def
      f_minus_two_def f_nan_def f_sqrt2_def f_quarter_pi_def f_minus_zero_def)

lemma float_consts_sign:
  "\<not> float_sign f_one" "\<not> float_sign f_two" "float_sign f_minus_two" "float_sign f_minus_zero"
  by (simp_all add: float_sign_def f_one_def f_two_def f_minus_two_def f_minus_zero_def bit_simps)

lemma float_int_value_one: "float_int_value f_one = Some 1"
  by (simp add: float_int_value_def f_one_parts Let_def)

lemma float_int_value_two: "float_int_value f_two = Some 2"
  by (simp add: float_int_value_def f_two_parts Let_def)

subsection \<open>Equality\<close>

lemma py_len_iter: "py_len other = Inr m \<Longrightarrow> py_iter other = Inr ys \<Longrightarrow> length ys = m"
  by (induction other rule: py_len.induct) (auto simp add: Vector_len_def split: if_splits)

lemma list_all_zip_nth:
  "length xs = length ys \<Longrightarrow>
   list_all (\<lambda>(a, b). P a b) (zip xs ys) \<longleftrightarrow> (\<forall>i<length ys. P (xs ! i) (ys ! i))"
  by (simp add: list_all_length)

lemma Vector_eq_True_iff:
  "Vector_eq a other = Inr True \<longleftrightarrow>
     (\<exists>ys. sized_items other = Some ys \<and> length ys = Vector_len a \<and>
           (\<forall>i<length ys. float_eq_item (components a ! i) (ys ! i)))"
proof (cases "py_len other")
  case (Inl e)
  then show ?thesis by (simp add: Vector_eq_def sized_items_def)
next
  case len: (Inr m)
  show ?thesis
  proof (cases "py_iter other")
    case (Inl e)
    with len show ?thesis
      by (induction other rule: py_len.induct) (auto split: if_splits)
  next
    case (Inr ys)
    with len have m: "length ys = m" by (rule py_len_iter)
    show ?thesis
    proof (cases "Vector_len a = m")
      case True
      then have "length (components a) = length ys" using m by (simp add: Vector_len_def)
      from list_all_zip_nth [OF this] len Inr True m show ?thesis
        by (simp add: Vector_eq_def sized_items_def)
    next
      case False
      with len Inr m show ?thesis by (auto simp add: Vector_eq_def sized_items_def)
    qed
  qed
qed

lemma Vector_eq_Vector:
  "has_len (cls b) \<Longrightarrow>
   Vector_eq a (PyVector b) =
     Inr (Vector_len a = Vector_len b \<and>
          (\<forall>i<Vector_len b. float_eq (components a ! i) (components b ! i)))"
  by (auto simp add: Vector_eq_def Vector_len_def list_all_length)

text \<open>
  C1, as the code has it. \<open>__eq__\<close> tests no type: \<open>a == b\<close> is true exactly when \<open>b\<close> is any
  value with a length and an iterator (a Vector, but also a tuple, a list, an array or a
  str) whose length is \<open>len(a)\<close> and whose items are equal to the components of \<open>a\<close>,
  pairwise and in order. Between two Vectors this is equal length and pairwise equal
  components.
\<close>

theorem Vector_eq_sized_iterable:
  "(Vector_eq a other = Inr True \<longleftrightarrow>
      (\<exists>ys. sized_items other = Some ys \<and> length ys = Vector_len a \<and>
            (\<forall>i<length ys. float_eq_item (components a ! i) (ys ! i)))) \<and>
   (has_len (cls b) \<longrightarrow>
      Vector_eq a (PyVector b) =
        Inr (Vector_len a = Vector_len b \<and>
             (\<forall>i<Vector_len b. float_eq (components a ! i) (components b ! i))))"
  using Vector_eq_True_iff [of a other] Vector_eq_Vector [of b a] by blast

theorem Vector_eq_sized_iterable_witness:
  "Vector_eq \<lparr>cls = Vector, components = [f_one, f_two]\<rparr> (PyList [IFloat f_one, IInt 2]) = Inr True \<and>
   has_len (cls \<lparr>cls = Vector4, components = [f_one, f_two]\<rparr>) \<and>
   Vector_eq \<lparr>cls = Vector, components = [f_one, f_two]\<rparr>
     (PyVector \<lparr>cls = Vector4, components = [f_one, f_two]\<rparr>) = Inr True"
  using Vector_eq_sized_iterable
    [of "\<lparr>cls = Vector, components = [f_one, f_two]\<rparr>"
        "PyList [IFloat f_one, IInt 2]"
        "\<lparr>cls = Vector4, components = [f_one, f_two]\<rparr>"]
  by (simp add: sized_items_def Vector_len_def has_len_def float_eq_def not_nan_f_one
      not_nan_f_two float_int_value_two All_less_Suc)

text \<open>
  The claim fails on a tuple: \<open>Vector([1.0, 2.0]) == (1, 2)\<close> is true, and a tuple is not a
  Vector.
\<close>

theorem Vector_eq_tuple_counterexample:
  "Vector_eq \<lparr>cls = Vector, components = [f_one, f_two]\<rparr> (PyTuple [IInt 1, IInt 2]) = Inr True \<and>
   \<not> is_Vector (PyTuple [IInt 1, IInt 2])"
  by (simp add: Vector_eq_def Vector_len_def float_int_value_one float_int_value_two)

subsection \<open>Binary encoding\<close>

lemma ucast_byte_OR_push:
  "(ucast (ucast x :: byte) :: double) OR push_bit 8 (take_bit k (drop_bit 8 x)) = take_bit (8 + k) x"
  by (rule bit_eqI) (auto simp add: bit_simps)

lemma le_word_split_le: "le_word (split_le n x) = take_bit (8 * n) x"
  by (induction n arbitrary: x) (simp_all add: ucast_byte_OR_push)

lemma length_split_le: "length (split_le n x) = n"
  by (induction n arbitrary: x) simp_all

lemma bytes_to_double_inverse: "bytes_to_double bo (double_to_bytes bo x) = x"
  by (cases bo) (simp_all add: bytes_to_double_def double_to_bytes_def le_word_split_le
      take_bit_word_eq_self)

lemma length_double_to_bytes: "length (double_to_bytes bo x) = 8"
  by (cases bo) (simp_all add: double_to_bytes_def length_split_le)

lemma length_array_tobytes: "length (array_tobytes bo xs) = 8 * length xs"
  by (induction xs) (simp_all add: array_tobytes_def length_double_to_bytes)

lemma unpack_doubles_array_tobytes:
  "unpack_doubles bo (length xs) (array_tobytes bo xs) = xs"
proof (induction xs)
  case Nil
  then show ?case by simp
next
  case (Cons x xs)
  have "unpack_doubles bo (Suc (length xs)) (double_to_bytes bo x @ array_tobytes bo xs) =
        bytes_to_double bo (double_to_bytes bo x) # unpack_doubles bo (length xs) (array_tobytes bo xs)"
    by (simp add: length_double_to_bytes)
  with Cons show ?case
    by (simp add: array_tobytes_def bytes_to_double_inverse)
qed

lemma typecode_byte: "char_of (unat (of_nat (of_char (typecode c)) :: byte)) = CHR ''d''"
proof -
  have "char_of (unat (of_nat (of_char (typecode c)) :: byte)) = typecode c"
    by (simp add: unat_of_nat)
  then show ?thesis by (simp only: typecode_def)
qed

lemma frombytes_Vector_bytes:
  "frombytes P c (Vector_bytes (byte_order P) v) = Inr (Vector_init c (components v))"
  by (simp add: frombytes_def Vector_bytes_def typecode_byte length_array_tobytes
      unpack_doubles_array_tobytes)

lemma Vector_eq_same_components:
  "has_len c \<Longrightarrow>
   Vector_eq v (PyVector (Vector_init c (components v))) = Inr (\<forall>x\<in>set (components v). \<not> is_nan x)"
proof -
  assume "has_len c"
  then have "Vector_eq v (PyVector (Vector_init c (components v))) =
      Inr (\<forall>i<length (components v). float_eq (components v ! i) (components v ! i))"
    by (simp add: Vector_eq_Vector Vector_init_def Vector_len_def)
  also have "(\<forall>i<length (components v). float_eq (components v ! i) (components v ! i)) \<longleftrightarrow>
      (\<forall>x\<in>set (components v). \<not> is_nan x)"
    by (auto simp add: float_eq_def all_set_conv_all_nth)
  finally show ?thesis .
qed

text \<open>
  C2, as the code has it. The encoding of \<open>v\<close> is the byte of \<open>'d'\<close> followed by eight bytes
  for each component. Decoding it succeeds for every \<open>v\<close>, the empty Vector included, and
  gives a Vector of the class called whose components are those of \<open>v\<close> bit for bit. Under
  \<open>==\<close> the decoded Vector is equal to \<open>v\<close> exactly when no component of \<open>v\<close> is a NaN.
\<close>

theorem frombytes_bytes_roundtrip:
  "hd (Vector_bytes (byte_order P) v) = 100 \<and>
   length (Vector_bytes (byte_order P) v) = 1 + 8 * Vector_len v \<and>
   frombytes P c (Vector_bytes (byte_order P) v) = Inr (Vector_init c (components v)) \<and>
   (has_len c \<longrightarrow>
      Vector_eq v (PyVector (Vector_init c (components v))) =
        Inr (\<forall>x\<in>set (components v). \<not> is_nan x))"
  using frombytes_Vector_bytes [of P c v] Vector_eq_same_components [of c v]
  by (simp add: Vector_bytes_def typecode_def length_array_tobytes Vector_len_def)

theorem frombytes_bytes_roundtrip_witness:
  "frombytes le_platform Vector
     (Vector_bytes (byte_order le_platform) \<lparr>cls = Vector, components = [f_one, f_two]\<rparr>) =
     Inr (Vector_init Vector [f_one, f_two]) \<and>
   has_len Vector \<and>
   Vector_eq \<lparr>cls = Vector, components = [f_one, f_two]\<rparr>
     (PyVector (Vector_init Vector [f_one, f_two])) = Inr True \<and>
   frombytes le_platform Vector (Vector_bytes (byte_order le_platform) \<lparr>cls = Vector, components = []\<rparr>) =
     Inr (Vector_init Vector [])"
  using frombytes_bytes_roundtrip
    [where P = le_platform and c = Vector and v = "\<lparr>cls = Vector, components = [f_one, f_two]\<rparr>"]
    frombytes_bytes_roundtrip
    [where P = le_platform and c = Vector and v = "\<lparr>cls = Vector, components = []\<rparr>"]
  by (simp add: has_len_def not_nan_f_one not_nan_f_two)

text \<open>
  The claim fails on a NaN component: \<open>Vector([nan])\<close> decodes to a Vector with the same bits,
  which is not equal to it.
\<close>

theorem frombytes_bytes_nan_counterexample:
  "frombytes le_platform Vector
     (Vector_bytes LittleEndian \<lparr>cls = Vector, components = [f_nan]\<rparr>) =
     Inr \<lparr>cls = Vector, components = [f_nan]\<rparr> \<and>
   Vector_eq \<lparr>cls = Vector, components = [f_nan]\<rparr>
     (PyVector \<lparr>cls = Vector, components = [f_nan]\<rparr>) = Inr False"
proof -
  have "byte_order le_platform = LittleEndian"
    by (simp add: le_platform_def)
  with frombytes_Vector_bytes [of le_platform Vector "\<lparr>cls = Vector, components = [f_nan]\<rparr>"]
  have "frombytes le_platform Vector
     (Vector_bytes LittleEndian \<lparr>cls = Vector, components = [f_nan]\<rparr>) =
     Inr \<lparr>cls = Vector, components = [f_nan]\<rparr>"
    by (simp add: Vector_init_def)
  moreover have "Vector_eq \<lparr>cls = Vector, components = [f_nan]\<rparr>
     (PyVector \<lparr>cls = Vector, components = [f_nan]\<rparr>) = Inr False"
    by (simp add: Vector_eq_def Vector_len_def has_len_def float_eq_def is_nan_f_nan)
  ultimately show ?thesis by simp
qed

subsection \<open>Slices\<close>

lemma upt_Suc_shift: "[0..<Suc k] = 0 # map Suc [0..<k]"
  by (simp add: upt_conv_Cons map_Suc_upt del: upt_Suc)

lemma slice_items_map: "slice_items xs a st k = map (\<lambda>i. xs ! nat (a + int i * st)) [0..<k]"
proof (induction k arbitrary: a)
  case 0
  show ?case by simp
next
  case (Suc k)
  from Suc [of "a + st"] show ?case
    by (simp add: upt_Suc_shift algebra_simps del: upt_Suc)
qed

lemma slice_length_step_pos:
  assumes "0 < st" and "a < z"
  shows "slice_length a z st = Suc (slice_length (a + st) z st)"
proof (cases "a + st < z")
  case True
  have "z - a - 1 = (z - (a + st) - 1) + st" by simp
  then have "(z - a - 1) div st = (z - (a + st) - 1) div st + 1"
    using assms(1) by (metis div_add_self2 less_irrefl)
  with assms True show ?thesis
    by (simp add: slice_length_def nat_add_distrib pos_imp_zdiv_nonneg_iff)
next
  case False
  with assms have "(z - a - 1) div st = 0" by (simp add: div_pos_pos_trivial)
  with assms False show ?thesis by (simp add: slice_length_def)
qed

lemma slice_length_step_neg:
  assumes "st < 0" and "z < a"
  shows "slice_length a z st = Suc (slice_length (a + st) z st)"
proof (cases "z < a + st")
  case True
  have "a - z - 1 = (a + st - z - 1) + (- st)" by simp
  then have "(a - z - 1) div (- st) = (a + st - z - 1) div (- st) + 1"
    using assms(1) by (metis div_add_self2 neg_equal_0_iff_equal less_irrefl)
  with assms True show ?thesis
    by (simp add: slice_length_def nat_add_distrib pos_imp_zdiv_nonneg_iff)
next
  case False
  with assms have "(a - z - 1) div (- st) = 0" by (simp add: div_pos_pos_trivial)
  with assms False show ?thesis by (simp add: slice_length_def)
qed

lemma py_range_map:
  "st \<noteq> 0 \<Longrightarrow> py_range a z st = map (\<lambda>i. a + int i * st) [0..<slice_length a z st]"
proof (induction a z st rule: py_range.induct)
  case (1 a z st)
  show ?case
  proof (cases "(0 < st \<and> a < z) \<or> (st < 0 \<and> z < a)")
    case True
    then have len: "slice_length a z st = Suc (slice_length (a + st) z st)"
      using slice_length_step_pos slice_length_step_neg by blast
    from True 1 len show ?thesis
      by (subst py_range.simps) (simp add: upt_Suc_shift algebra_simps del: upt_Suc)
  next
    case False
    with "1.prems" have "slice_length a z st = 0" by (auto simp add: slice_length_def)
    with False show ?thesis by (subst py_range.simps) simp
  qed
qed

lemma py_range_bounds:
  "k \<in> set (py_range a z st) \<Longrightarrow> (if 0 < st then a \<le> k \<and> k < z else z < k \<and> k \<le> a)"
proof (induction a z st rule: py_range.induct)
  case (1 a z st)
  show ?case
  proof (cases "(0 < st \<and> a < z) \<or> (st < 0 \<and> z < a)")
    case True
    with "1.prems" have "k = a \<or> k \<in> set (py_range (a + st) z st)"
      by (subst (asm) py_range.simps) auto
    with True 1(1) show ?thesis by (auto split: if_splits)
  next
    case False
    with "1.prems" show ?thesis by (subst (asm) py_range.simps) simp
  qed
qed

lemma length_py_range: "st \<noteq> 0 \<Longrightarrow> length (py_range a z st) = slice_length a z st"
  by (simp add: py_range_map)

lemma adjust_bound_range:
  "0 \<le> len \<Longrightarrow>
   (if step < 0 then - 1 \<le> adjust_bound len step b \<and> adjust_bound len step b < len
    else 0 \<le> adjust_bound len step b \<and> adjust_bound len step b \<le> len)"
  by (auto simp add: adjust_bound_def)

lemma slice_indices_range:
  assumes "slice_indices start stop step n = Inr (a, z, st)"
  shows "st \<noteq> 0 \<and>
         (if st < 0 then - 1 \<le> a \<and> a < int n \<and> - 1 \<le> z \<and> z < int n
          else 0 \<le> a \<and> a \<le> int n \<and> 0 \<le> z \<and> z \<le> int n)"
proof -
  from assms have st: "st \<noteq> 0"
    and a: "a = (case start of None \<Rightarrow> (if st < 0 then int n - 1 else 0) | Some b \<Rightarrow> adjust_bound (int n) st b)"
    and z: "z = (case stop of None \<Rightarrow> (if st < 0 then - 1 else int n) | Some b \<Rightarrow> adjust_bound (int n) st b)"
    by (auto simp add: slice_indices_def Let_def split: if_splits)
  have "if st < 0 then - 1 \<le> a \<and> a < int n else 0 \<le> a \<and> a \<le> int n"
    using adjust_bound_range [of "int n" st] by (cases start) (auto simp add: a)
  moreover have "if st < 0 then - 1 \<le> z \<and> z < int n else 0 \<le> z \<and> z \<le> int n"
    using adjust_bound_range [of "int n" st] by (cases stop) (auto simp add: z)
  ultimately show ?thesis using st by (auto split: if_splits)
qed

lemma slice_indices_total:
  "step \<noteq> Some 0 \<Longrightarrow> \<exists>a z st. slice_indices start stop step n = Inr (a, z, st)"
  by (cases step) (simp_all add: slice_indices_def Let_def)

lemma py_range_in_range:
  assumes "slice_indices start stop step n = Inr (a, z, st)" and "k \<in> set (py_range a z st)"
  shows "0 \<le> k \<and> k < int n"
  using slice_indices_range [OF assms(1)] py_range_bounds [OF assms(2)]
  by (auto split: if_splits)

lemma take_drop_map:
  "a + k \<le> length xs \<Longrightarrow> take k (drop a xs) = map (\<lambda>i. xs ! (a + i)) [0..<k]"
  by (rule nth_equalityI) simp_all

lemma seq_getslice_py_range:
  assumes ind: "slice_indices start stop step (length xs) = Inr (a, z, st)"
  shows "seq_getslice xs start stop step = Inr (map (\<lambda>k. xs ! nat k) (py_range a z st))"
proof -
  from slice_indices_range [OF ind] have st: "st \<noteq> 0"
    and rng: "if st < 0 then - 1 \<le> a \<and> a < int (length xs) \<and> - 1 \<le> z \<and> z < int (length xs)
          else 0 \<le> a \<and> a \<le> int (length xs) \<and> 0 \<le> z \<and> z \<le> int (length xs)"
    by simp_all
  let ?k = "slice_length a z st"
  have spec: "map (\<lambda>k. xs ! nat k) (py_range a z st) = map (\<lambda>i. xs ! nat (a + int i * st)) [0..<?k]"
    using st by (simp add: py_range_map comp_def)
  show ?thesis
  proof (cases "st = 1")
    case True
    with rng have a0: "0 \<le> a" and an: "a \<le> int (length xs)" and zn: "z \<le> int (length xs)"
      by simp_all
    have k: "?k = nat (z - a)" using True by (simp add: slice_length_def)
    have "nat a + ?k \<le> length xs" unfolding k using a0 an zn by linarith
    then have "take ?k (drop (nat a) xs) = map (\<lambda>i. xs ! (nat a + i)) [0..<?k]"
      by (rule take_drop_map)
    also have "\<dots> = map (\<lambda>i. xs ! nat (a + int i * st)) [0..<?k]"
      using True a0 by (simp add: nat_add_distrib)
    finally show ?thesis using ind True spec
      by (simp add: seq_getslice_def Let_def)
  next
    case False
    with ind spec show ?thesis
      by (simp add: seq_getslice_def Let_def slice_items_map)
  qed
qed

text \<open>
  C3. For every Vector and every slice whose step is not zero, \<open>__getitem__\<close> succeeds and
  returns a Vector of the class of the receiver (never the array). With \<open>(a, z, st)\<close> the
  normalised slice, its components are the receiver's components at the indices
  \<open>range(a, z, st)\<close>, in that order; every such index lies within the receiver, and their
  number is the normalised slice length.
\<close>

theorem Vector_getitem_slice:
  assumes "step \<noteq> Some 0"
  shows "\<exists>a z st.
           slice_indices start stop step (Vector_len v) = Inr (a, z, st) \<and>
           Vector_getitem v (KSlice start stop step) =
             Inr (AVector \<lparr>cls = cls v, components = map (\<lambda>k. components v ! nat k) (py_range a z st)\<rparr>) \<and>
           (\<forall>k\<in>set (py_range a z st). 0 \<le> k \<and> k < int (Vector_len v)) \<and>
           length (py_range a z st) = slice_length a z st"
proof -
  from slice_indices_total [OF assms]
  obtain a z st where ind: "slice_indices start stop step (Vector_len v) = Inr (a, z, st)"
    by blast
  then have ind': "slice_indices start stop step (length (components v)) = Inr (a, z, st)"
    by (simp add: Vector_len_def)
  have "Vector_getitem v (KSlice start stop step) =
          Inr (AVector \<lparr>cls = cls v, components = map (\<lambda>k. components v ! nat k) (py_range a z st)\<rparr>)"
    by (simp add: Vector_getitem_def seq_getslice_py_range [OF ind'] Vector_init_def)
  moreover have "\<forall>k\<in>set (py_range a z st). 0 \<le> k \<and> k < int (Vector_len v)"
    using py_range_in_range [OF ind] by blast
  moreover have "length (py_range a z st) = slice_length a z st"
    using slice_indices_range [OF ind] by (simp add: length_py_range)
  ultimately show ?thesis using ind by blast
qed

theorem Vector_getitem_slice_witness:
  "Some (- 2) \<noteq> Some (0 :: int) \<and>
   Vector_getitem \<lparr>cls = Vector4, components = [f_one, f_two, f_minus_two, f_nan, f_minus_zero]\<rparr>
     (KSlice (Some (- 1)) (Some 0) (Some (- 2))) =
     Inr (AVector \<lparr>cls = Vector4, components = [f_minus_zero, f_minus_two]\<rparr>)"
  using Vector_getitem_slice
    [where step = "Some (- 2)" and start = "Some (- 1)" and stop = "Some 0"
       and v = "\<lparr>cls = Vector4, components = [f_one, f_two, f_minus_two, f_nan, f_minus_zero]\<rparr>"]
  by (simp add: Vector_getitem_def seq_getslice_def slice_indices_def adjust_bound_def
      slice_length_def Vector_init_def eval_nat_numeral)

subsection \<open>Single items\<close>

lemma Vector_getitem_index:
  "operator_index key = Inr i \<Longrightarrow>
   Vector_getitem v key =
     (if - int (Vector_len v) \<le> i \<and> i < int (Vector_len v)
      then Inr (AFloat (components v ! nat (if i < 0 then i + int (Vector_len v) else i)))
      else Inl IndexError)"
  by (cases key) (auto simp add: Vector_getitem_def seq_getitem_def Vector_len_def Let_def)

lemma Vector_getitem_no_index:
  "operator_index key = Inl e \<Longrightarrow> \<forall>a b c. key \<noteq> KSlice a b c \<Longrightarrow> Vector_getitem v key = Inl TypeError"
  by (cases key) (auto simp add: Vector_getitem_def)

text \<open>
  C6. For a key that is not a slice, \<open>__getitem__\<close> returns a component exactly when the key
  is an integer (an int, or a bool, which Python counts as one) within \<open>[-n, n - 1]\<close>, a
  negative index counting from the end. A float key and a tuple key raise TypeError (the
  InvalidIndexType of the specification), whatever their value; an int out of range raises
  IndexError.
\<close>

theorem Vector_getitem_single:
  "((\<forall>a b c. key \<noteq> KSlice a b c) \<longrightarrow>
      ((\<exists>r. Vector_getitem v key = Inr r) \<longleftrightarrow>
       (\<exists>i. operator_index key = Inr i \<and> - int (Vector_len v) \<le> i \<and> i < int (Vector_len v)))) \<and>
   Vector_getitem v (KFloat x) = Inl TypeError \<and>
   Vector_getitem v (KTuple ks) = Inl TypeError \<and>
   (i < - int (Vector_len v) \<or> int (Vector_len v) \<le> i \<longrightarrow> Vector_getitem v (KInt i) = Inl IndexError) \<and>
   (- int (Vector_len v) \<le> i \<and> i < int (Vector_len v) \<longrightarrow>
      Vector_getitem v (KInt i) =
        Inr (AFloat (components v ! nat (if i < 0 then i + int (Vector_len v) else i))))"
proof -
  have "(\<exists>r. Vector_getitem v key = Inr r) \<longleftrightarrow>
        (\<exists>i. operator_index key = Inr i \<and> - int (Vector_len v) \<le> i \<and> i < int (Vector_len v))"
    if "\<forall>a b c. key \<noteq> KSlice a b c"
  proof (cases "operator_index key")
    case (Inl e)
    with that show ?thesis by (simp add: Vector_getitem_no_index)
  next
    case (Inr j)
    then show ?thesis by (simp add: Vector_getitem_index)
  qed
  moreover have "Vector_getitem v (KFloat x) = Inl TypeError"
    by (simp add: Vector_getitem_def)
  moreover have "Vector_getitem v (KTuple ks) = Inl TypeError"
    by (simp add: Vector_getitem_def)
  moreover have "Vector_getitem v (KInt i) =
     (if - int (Vector_len v) \<le> i \<and> i < int (Vector_len v)
      then Inr (AFloat (components v ! nat (if i < 0 then i + int (Vector_len v) else i)))
      else Inl IndexError)"
    by (rule Vector_getitem_index) simp
  ultimately show ?thesis by auto
qed

theorem Vector_getitem_single_witness:
  "Vector_getitem \<lparr>cls = Vector, components = [f_one, f_two, f_nan]\<rparr> (KInt (- 1)) = Inr (AFloat f_nan) \<and>
   Vector_getitem \<lparr>cls = Vector, components = [f_one, f_two, f_nan]\<rparr> (KFloat f_one) = Inl TypeError \<and>
   Vector_getitem \<lparr>cls = Vector, components = [f_one, f_two, f_nan]\<rparr> (KTuple [KInt 1, KInt 2]) = Inl TypeError \<and>
   Vector_getitem \<lparr>cls = Vector, components = [f_one, f_two, f_nan]\<rparr> (KInt 3) = Inl IndexError"
  using Vector_getitem_single
    [where key = "KInt (- 1)" and v = "\<lparr>cls = Vector, components = [f_one, f_two, f_nan]\<rparr>"
       and x = f_one and ks = "[KInt 1, KInt 2]" and i = "- 1"]
    Vector_getitem_single
    [where key = "KInt 3" and v = "\<lparr>cls = Vector, components = [f_one, f_two, f_nan]\<rparr>"
       and x = f_one and ks = "[KInt 1, KInt 2]" and i = 3]
  by (simp add: Vector_len_def)

subsection \<open>Hashing\<close>

lemma foldl_xor_snoc: "foldl (XOR) (0 :: int) (map h (xs @ [x])) = foldl (XOR) 0 (map h xs) XOR h x"
  by simp

lemma map_hash_eq:
  assumes "\<forall>x y. float_eq x y \<longrightarrow> h x = h y"
    and "length xs = length ys"
    and "\<forall>i<length ys. float_eq (xs ! i) (ys ! i)"
  shows "map h xs = map h ys"
  using assms by (auto intro!: nth_equalityI)

lemma bits_hash_float_eq: "float_eq x y \<Longrightarrow> bits_hash x = bits_hash y"
  by (auto simp add: float_eq_def bits_hash_def)

text \<open>
  C4. \<open>__hash__\<close> folds the hashes of the components with exclusive or, from the left and
  starting from \<open>0\<close>: the empty Vector hashes to \<open>0\<close>, and one more component on the right
  is one more exclusive or. When the hash of floats agrees on equal floats, as Python's does,
  two Vectors that are equal have the same hash.
\<close>

theorem Vector_hash_xor_reduce:
  "Vector_hash h \<lparr>cls = c, components = []\<rparr> = 0 \<and>
   Vector_hash h \<lparr>cls = c, components = xs @ [x]\<rparr> = Vector_hash h \<lparr>cls = c, components = xs\<rparr> XOR h x \<and>
   ((\<forall>x y. float_eq x y \<longrightarrow> h x = h y) \<and> Vector_eq a (PyVector b) = Inr True \<longrightarrow>
      Vector_hash h a = Vector_hash h b)"
proof -
  have "Vector_hash h a = Vector_hash h b"
    if h: "\<forall>x y. float_eq x y \<longrightarrow> h x = h y" and eq: "Vector_eq a (PyVector b) = Inr True"
  proof -
    from eq have len: "has_len (cls b)"
      by (auto simp add: Vector_eq_def split: if_splits)
    from eq Vector_eq_Vector [OF len, of a]
    have "length (components a) = length (components b)"
      and "\<forall>i<length (components b). float_eq (components a ! i) (components b ! i)"
      by (simp_all add: Vector_len_def)
    with h have "map h (components a) = map h (components b)"
      by (rule map_hash_eq)
    then show ?thesis by (simp add: Vector_hash_def)
  qed
  then show ?thesis by (simp add: Vector_hash_def)
qed

theorem Vector_hash_xor_reduce_witness:
  "Vector_eq \<lparr>cls = Vector, components = [f_one, f_minus_zero]\<rparr>
     (PyVector \<lparr>cls = Vector4, components = [f_one, 0]\<rparr>) = Inr True \<and>
   Vector_hash bits_hash \<lparr>cls = Vector, components = [f_one, f_minus_zero]\<rparr> =
     Vector_hash bits_hash \<lparr>cls = Vector4, components = [f_one, 0]\<rparr>"
proof -
  have h: "\<forall>x y. float_eq x y \<longrightarrow> bits_hash x = bits_hash y"
    using bits_hash_float_eq by blast
  note z = float_consts_zero float_consts_nan
  have eq: "Vector_eq \<lparr>cls = Vector, components = [f_one, f_minus_zero]\<rparr>
     (PyVector \<lparr>cls = Vector4, components = [f_one, 0]\<rparr>) = Inr True"
    by (simp add: Vector_eq_def Vector_len_def has_len_def float_eq_def not_nan_f_one z)
  from h eq Vector_hash_xor_reduce
    [where h = bits_hash and a = "\<lparr>cls = Vector, components = [f_one, f_minus_zero]\<rparr>"
       and b = "\<lparr>cls = Vector4, components = [f_one, 0]\<rparr>"]
  show ?thesis by blast
qed

subsection \<open>Truth value\<close>

text \<open>
  C10. \<open>bool(v)\<close> is false exactly when \<open>abs(v)\<close> is a zero. Given that \<open>math.hypot\<close> is a
  zero exactly when all its arguments are, this is exactly when every component is a zero
  (\<open>0.0\<close> or \<open>-0.0\<close>); the Vector without components is falsy.
\<close>

theorem Vector_bool_zero:
  assumes "hypot_zero_iff M"
  shows "(\<not> Vector_bool M v \<longleftrightarrow> (\<forall>x\<in>set (components v). is_zero x)) \<and>
         (\<not> Vector_bool M v \<longleftrightarrow> is_zero (Vector_abs M v)) \<and>
         \<not> Vector_bool M \<lparr>cls = c, components = []\<rparr>"
  using assms by (simp add: Vector_bool_def Vector_abs_def float_bool_def hypot_zero_iff_def)

lemma sample_math_hypot_zero: "hypot_zero_iff sample_math"
proof -
  show ?thesis
    by (auto simp add: hypot_zero_iff_def sample_math_def list_all_iff float_consts_zero)
qed

theorem Vector_bool_zero_witness:
  "\<not> Vector_bool sample_math \<lparr>cls = Vector, components = [0, f_minus_zero]\<rparr> \<and>
   Vector_bool sample_math \<lparr>cls = Vector, components = [0, f_nan]\<rparr> \<and>
   \<not> Vector_bool sample_math \<lparr>cls = Vector, components = []\<rparr>"
proof -
  note z = float_consts_zero
  from Vector_bool_zero [OF sample_math_hypot_zero, of "\<lparr>cls = Vector, components = [0, f_minus_zero]\<rparr>" Vector]
    Vector_bool_zero [OF sample_math_hypot_zero, of "\<lparr>cls = Vector, components = [0, f_nan]\<rparr>" Vector]
    sample_math_hypot_zero z
  show ?thesis by simp
qed

subsection \<open>Angles\<close>

lemma seq_getslice_from:
  assumes "0 \<le> k" and "k \<le> int (length xs)"
  shows "seq_getslice xs (Some k) None None = Inr (drop (nat k) xs)"
proof -
  have ind: "slice_indices (Some k) None None (length xs) = Inr (k, int (length xs), 1)"
    using assms by (auto simp add: slice_indices_def adjust_bound_def Let_def)
  have len: "slice_length k (int (length xs)) 1 = length xs - nat k"
    using assms by (auto simp add: slice_length_def)
  show ?thesis
    by (simp add: seq_getslice_def ind len Let_def)
qed

lemma Vector_getitem_tail:
  "k \<le> Vector_len v \<Longrightarrow>
   unpack_vector (Vector_getitem v (KSlice (Some (int k)) None None)) = Inr (drop k (components v))"
  by (simp add: Vector_getitem_def unpack_vector_def seq_getslice_from Vector_len_def Vector_init_def)

lemma Vector_getitem_nat:
  "k < Vector_len v \<Longrightarrow> as_float (Vector_getitem v (KInt (int k))) = Inr (components v ! k)"
  by (simp add: Vector_getitem_def as_float_def seq_getitem_def Vector_len_def)

lemma Vector_getitem_last:
  "0 < Vector_len v \<Longrightarrow> as_float (Vector_getitem v (KInt (- 1))) = Inr (last (components v))"
proof -
  assume "0 < Vector_len v"
  then have ne: "components v \<noteq> []" by (simp add: Vector_len_def)
  have "nat (int (length (components v)) - 1) = length (components v) - 1" by simp
  with ne show ?thesis
    by (simp add: Vector_getitem_def as_float_def seq_getitem_def last_conv_nth)
qed

lemma angle_in_range:
  assumes "1 \<le> k" and "k < Vector_len v"
  shows "angle M v (int k) = Inr (hyperspherical_angle M (components v) k)"
proof -
  from assms have lt: "k - 1 < Vector_len v" and le: "k \<le> Vector_len v" and pos: "0 < Vector_len v"
    by simp_all
  have tail: "unpack_vector (Vector_getitem v (KSlice (Some (int k)) None None)) =
      Inr (drop k (components v))"
    by (rule Vector_getitem_tail [OF le])
  have k1: "int (k - 1) = int k - 1" using assms by simp
  have prev: "as_float (Vector_getitem v (KInt (int k - 1))) = Inr (components v ! (k - 1))"
    using Vector_getitem_nat [OF lt] unfolding k1 .
  have lst: "as_float (Vector_getitem v (KInt (- 1))) = Inr (last (components v))"
    by (rule Vector_getitem_last [OF pos])
  have last_axis: "(int k = int (Vector_len v) - 1) = (k = length (components v) - 1)"
    using assms by (auto simp add: Vector_len_def)
  have "angle M v (int k) =
      (let a = m_atan2 M (m_hypot M (drop k (components v))) (components v ! (k - 1)) in
       if int k = int (Vector_len v) - 1
       then (if float_lt_zero (last (components v)) then Inr (f_sub M (f_mul M (m_pi M) f_two) a) else Inr a)
       else Inr a)"
    by (simp only: angle_def tail prev lst sum.case Let_def)
  also have "\<dots> = Inr (hyperspherical_angle M (components v) k)"
    by (auto simp add: last_axis hyperspherical_angle_def Let_def)
  finally show ?thesis .
qed

text \<open>
  C7. For an axis \<open>k\<close> in \<open>[1, n - 1]\<close>, \<open>angle(k)\<close> raises nothing and is the two-argument
  arctangent of the magnitude of the components \<open>k, ..., n - 1\<close> and component \<open>k - 1\<close>;
  when \<open>k\<close> is the last axis and the last component is less than zero, it is \<open>2\<pi>\<close> minus
  that arctangent.
\<close>

theorem angle_hyperspherical:
  assumes "1 \<le> k" and "k < Vector_len v"
  shows "angle M v (int k) =
           Inr (let a = m_atan2 M (m_hypot M (drop k (components v))) (components v ! (k - 1)) in
                if k = Vector_len v - 1 \<and> float_lt_zero (last (components v))
                then f_sub M (f_mul M (m_pi M) f_two) a
                else a)"
  using angle_in_range [OF assms, of M]
  by (simp add: hyperspherical_angle_def Vector_len_def)

theorem angle_hyperspherical_witness:
  "(1 :: nat) \<le> 2 \<and>
   2 < Vector_len \<lparr>cls = Vector, components = [f_one, f_two, f_minus_two]\<rparr> \<and>
   angle sample_math \<lparr>cls = Vector, components = [f_one, f_two, f_minus_two]\<rparr> 2 =
     Inr f_seven_quarter_pi \<and>
   angle sample_math \<lparr>cls = Vector, components = [f_one, f_two, f_minus_two]\<rparr> 1 =
     Inr f_atan_two_sqrt2"
proof -
  have lt: "float_lt_zero f_minus_two"
    by (simp add: float_lt_zero_def float_consts_zero float_consts_nan float_consts_sign)
  from angle_hyperspherical [of 2 "\<lparr>cls = Vector, components = [f_one, f_two, f_minus_two]\<rparr>" sample_math]
    angle_hyperspherical [of 1 "\<lparr>cls = Vector, components = [f_one, f_two, f_minus_two]\<rparr>" sample_math] lt
  show ?thesis by (simp add: Vector_len_def sample_math_values)
qed

subsection \<open>Formatting\<close>

lemma collect_map_Inr: "collect (map Inr xs) = Inr xs"
  by (induction xs) simp_all

lemma angles_in_range:
  "angles M v = map (\<lambda>k. Inr (hyperspherical_angle M (components v) k)) [1..<Vector_len v]"
  unfolding angles_def by (rule map_cong) (simp_all add: angle_in_range)

lemma str_endswith_snoc: "str_endswith (spec @ [c]) [c]"
  by (simp add: str_endswith_def)

lemma Vector_format_hyper:
  "Vector_format M F v (spec @ ''h'') =
     (case collect (map (\<lambda>x. F x spec)
             (Vector_abs M v # map (hyperspherical_angle M (components v)) [1..<Vector_len v])) of
        Inl e \<Rightarrow> Inl e
      | Inr pieces \<Rightarrow> Inr (''<'' @ str_join '', '' pieces @ ''>''))"
  by (simp add: Vector_format_def str_endswith_snoc angles_in_range comp_def Let_def del: upt_Suc)

lemma Vector_format_cartesian:
  "\<not> str_endswith fmt_spec ''h'' \<Longrightarrow>
   Vector_format M F v fmt_spec =
     (case collect (map (\<lambda>x. F x fmt_spec) (components v)) of
        Inl e \<Rightarrow> Inl e
      | Inr pieces \<Rightarrow> Inr (''('' @ str_join '', '' pieces @ '')''))"
  by (simp add: Vector_format_def comp_def Let_def)

lemma Vector_format_example:
  assumes "m_hypot M [f_one, f_one] = f_sqrt2" and "m_hypot M [f_one] = f_one"
    and "m_atan2 M f_one f_one = f_quarter_pi"
    and "F f_sqrt2 ''.3f'' = Inr ''1.414''" and "F f_quarter_pi ''.3f'' = Inr ''0.785''"
  shows "Vector_format M F \<lparr>cls = Vector, components = [f_one, f_one]\<rparr> ''.3fh'' = Inr ''<1.414, 0.785>''"
proof -
  have lt: "\<not> float_lt_zero f_one"
    by (simp add: float_lt_zero_def float_consts_sign)
  have "[1..<Vector_len \<lparr>cls = Vector, components = [f_one, f_one]\<rparr>] = [1]"
    by (simp add: Vector_len_def)
  then show ?thesis
    using Vector_format_hyper [of M F "\<lparr>cls = Vector, components = [f_one, f_one]\<rparr>" "''.3f''"] assms lt
    by (simp add: Vector_abs_def hyperspherical_angle_def)
qed

text \<open>
  C8. When the format specification ends with \<open>h\<close>, \<open>format(v, s)\<close> formats the magnitude and
  then the angles of the axes \<open>1, ..., n - 1\<close>, in that order, each with \<open>s\<close> without its
  last character, and renders them between \<open><\<close> and \<open>>\<close>; otherwise it formats every
  component with all of \<open>s\<close> and renders them between \<open>(\<close> and \<open>)\<close>. Both join the pieces
  with a comma and a space; an error of \<open>format\<close> on a float is the error of the call.
  With the library values of the example, \<open>format(Vector([1, 1]), '.3fh')\<close> is
  \<open><1.414, 0.785>\<close>.
\<close>

theorem Vector_format_modes:
  "Vector_format M F v (spec @ ''h'') =
     (case collect (map (\<lambda>x. F x spec)
             (Vector_abs M v # map (hyperspherical_angle M (components v)) [1..<Vector_len v])) of
        Inl e \<Rightarrow> Inl e
      | Inr pieces \<Rightarrow> Inr (''<'' @ str_join '', '' pieces @ ''>'')) \<and>
   (\<not> str_endswith fmt_spec ''h'' \<longrightarrow>
      Vector_format M F v fmt_spec =
        (case collect (map (\<lambda>x. F x fmt_spec) (components v)) of
           Inl e \<Rightarrow> Inl e
         | Inr pieces \<Rightarrow> Inr (''('' @ str_join '', '' pieces @ '')''))) \<and>
   (m_hypot M [f_one, f_one] = f_sqrt2 \<and> m_hypot M [f_one] = f_one \<and>
    m_atan2 M f_one f_one = f_quarter_pi \<and>
    F f_sqrt2 ''.3f'' = Inr ''1.414'' \<and> F f_quarter_pi ''.3f'' = Inr ''0.785'' \<longrightarrow>
      Vector_format M F \<lparr>cls = Vector, components = [f_one, f_one]\<rparr> ''.3fh'' = Inr ''<1.414, 0.785>'')"
  using Vector_format_hyper [of M F v spec] Vector_format_cartesian [of fmt_spec M F v]
    Vector_format_example [of M F]
  by blast

theorem Vector_format_modes_witness:
  "\<not> str_endswith ''.3f'' ''h'' \<and>
   Vector_format sample_math sample_format \<lparr>cls = Vector, components = [f_one, f_one]\<rparr> ''.3f'' =
     Inr ''(1.000, 1.000)'' \<and>
   m_hypot sample_math [f_one, f_one] = f_sqrt2 \<and> m_hypot sample_math [f_one] = f_one \<and>
   m_atan2 sample_math f_one f_one = f_quarter_pi \<and>
   sample_format f_sqrt2 ''.3f'' = Inr ''1.414'' \<and> sample_format f_quarter_pi ''.3f'' = Inr ''0.785'' \<and>
   Vector_format sample_math sample_format \<lparr>cls = Vector, components = [f_one, f_one]\<rparr> ''.3fh'' =
     Inr ''<1.414, 0.785>''"
proof -
  note vals = sample_math_values(1,2,5)
  have fmts: "sample_format f_sqrt2 ''.3f'' = Inr ''1.414''"
    "sample_format f_quarter_pi ''.3f'' = Inr ''0.785''"
    "sample_format f_one ''.3f'' = Inr ''1.000''"
    by (simp_all add: sample_format_def float_consts_distinct)
  have ne: "\<not> str_endswith ''.3f'' ''h''"
    by (simp add: str_endswith_def)
  note modes = Vector_format_modes
    [of sample_math sample_format "\<lparr>cls = Vector, components = [f_one, f_one]\<rparr>" "''.3f''" "''.3f''"]
  from modes ne have "Vector_format sample_math sample_format
      \<lparr>cls = Vector, components = [f_one, f_one]\<rparr> ''.3f'' = Inr ''(1.000, 1.000)''"
    by (simp add: fmts)
  moreover from modes vals fmts have "Vector_format sample_math sample_format
      \<lparr>cls = Vector, components = [f_one, f_one]\<rparr> ''.3fh'' = Inr ''<1.414, 0.785>''"
    by blast
  ultimately show ?thesis using vals fmts ne by simp
qed

subsection \<open>Debug representation\<close>

lemma length_repr_instance: "length (repr_instance s) \<le> 30"
  by (simp add: repr_instance_def maxother_def fillvalue_def Let_def)

lemma str_find_header:
  "str_find (''array('' @ [CHR 0x27, CHR ''d'', CHR 0x27] @ '', ['' @ rest) CHR ''['' = 11"
  by simp

lemma str_find_empty_array:
  "str_find (''array('' @ [CHR 0x27, CHR ''d'', CHR 0x27] @ '')'') CHR ''['' = - 1"
  by simp

lemma seq_getslice_strip:
  assumes "0 \<le> i" and "i < int (length s)"
  shows "seq_getslice s (Some i) (Some (- 1)) None = Inr (drop (nat i) (butlast s))"
proof -
  have ind: "slice_indices (Some i) (Some (- 1)) None (length s) = Inr (i, int (length s) - 1, 1)"
    using assms by (auto simp add: slice_indices_def adjust_bound_def Let_def)
  have len: "slice_length i (int (length s) - 1) 1 = length s - 1 - nat i"
    using assms by (auto simp add: slice_length_def)
  have "take (length s - 1 - nat i) (drop (nat i) s) = drop (nat i) (butlast s)"
    by (simp add: butlast_conv_take drop_take)
  then show ?thesis
    by (simp add: seq_getslice_def ind len Let_def)
qed

lemma seq_getslice_last_to_last:
  assumes "s \<noteq> []"
  shows "seq_getslice s (Some (- 1)) (Some (- 1)) None = Inr []"
proof -
  have ind: "slice_indices (Some (- 1)) (Some (- 1)) None (length s) =
      Inr (int (length s) - 1, int (length s) - 1, 1)"
    using assms by (auto simp add: slice_indices_def adjust_bound_def Let_def)
  show ?thesis
    by (simp add: seq_getslice_def ind slice_length_def Let_def)
qed

lemma Vector_repr_empty: "components v = [] \<Longrightarrow> Vector_repr R v = Inr ''Vector()''"
  by (simp add: Vector_repr_def repr_array_def typecode_def seq_getslice_last_to_last Let_def)

lemma Vector_repr_nonempty:
  assumes "components v \<noteq> []"
  shows "Vector_repr R v =
     Inr (''Vector(['' @
          str_join '', '' (map (\<lambda>x. repr_instance (R x)) (take 5 (components v)) @
                           (if 5 < Vector_len v then [''...''] else [])) @
          ''])'')"
proof -
  define body where "body = str_join '', '' (map (\<lambda>x. repr_instance (R x)) (take 5 (components v)) @
                           (if 5 < Vector_len v then [''...''] else []))"
  define s where "s = ''array('' @ [CHR 0x27, CHR ''d'', CHR 0x27] @ '', ['' @ body @ ''])''"
  have rep: "repr_array R (typecode (cls v)) (components v) = s"
    using assms by (simp add: repr_array_def typecode_def s_def body_def maxarray_def fillvalue_def
        Vector_len_def Let_def)
  have find: "str_find s CHR ''['' = 11"
    unfolding s_def by (rule str_find_header)
  have "seq_getslice s (Some 11) (Some (- 1)) None = Inr (drop (nat 11) (butlast s))"
    by (rule seq_getslice_strip) (simp_all add: s_def)
  also have "butlast s = ''array('' @ [CHR 0x27, CHR ''d'', CHR 0x27] @ '', ['' @ body @ '']''"
    by (simp add: s_def butlast_append)
  also have "drop (nat 11) \<dots> = ''['' @ body @ '']''"
    by simp
  finally show ?thesis
    by (simp add: Vector_repr_def rep find body_def Let_def)
qed

lemma length_str_join:
  "\<forall>p\<in>set ps. length p \<le> m \<Longrightarrow> length (str_join sep ps) \<le> length ps * (m + length sep)"
  by (induction sep ps rule: str_join.induct) auto

lemma repr_pieces_bound:
  "\<forall>p\<in>set (map (\<lambda>x. repr_instance (R x)) (take 5 xs) @ (if 5 < n then [''...''] else [])). length p \<le> 30"
  by (auto simp add: length_repr_instance)

text \<open>
  C9. \<open>repr(v)\<close> raises for no Vector. It shows the \<open>repr\<close> of at most the first five
  components, each at most 30 characters long, followed by \<open>...\<close> exactly when there are more
  than five; the whole is at most 202 characters long, however many components there are.
\<close>

theorem Vector_repr_elided:
  "Vector_repr R v =
     Inr (''Vector('' @
          (if components v = [] then []
           else ''['' @
                str_join '', '' (map (\<lambda>x. repr_instance (R x)) (take 5 (components v)) @
                                 (if 5 < Vector_len v then [''...''] else [])) @
                '']'') @
          '')'') \<and>
   (\<exists>s. Vector_repr R v = Inr s \<and> length s \<le> 202)"
proof -
  let ?pieces = "map (\<lambda>x. repr_instance (R x)) (take 5 (components v)) @
                 (if 5 < Vector_len v then [''...''] else [])"
  have form: "Vector_repr R v =
     Inr (''Vector('' @ (if components v = [] then [] else ''['' @ str_join '', '' ?pieces @ '']'') @ '')'')"
    by (cases "components v = []") (simp_all add: Vector_repr_empty Vector_repr_nonempty)
  have six: "length ?pieces \<le> 6" by (simp add: min_def)
  have "length (str_join '', '' ?pieces) \<le> length ?pieces * (30 + length '', '')"
    by (rule length_str_join) (rule repr_pieces_bound)
  also have "\<dots> = length ?pieces * 32" by simp
  also have "\<dots> \<le> 6 * 32" using six by (rule mult_le_mono1)
  finally have "length (str_join '', '' ?pieces) \<le> 6 * 32" .
  then have "length (''Vector('' @ (if components v = [] then [] else ''['' @ str_join '', '' ?pieces @ '']'') @ '')'') \<le> 202"
    by simp
  with form show ?thesis by simp
qed

theorem Vector_repr_elided_witness:
  "Vector_repr sample_repr \<lparr>cls = Vector, components = [0, f_one, f_two, f_one, f_two, f_one, 0]\<rparr> =
     Inr ''Vector([0.0, 1.0, 2.0, 1.0, 2.0, ...])'' \<and>
   Vector_repr sample_repr \<lparr>cls = Vector, components = []\<rparr> = Inr ''Vector()''"
proof -
  have ne: "f_one \<noteq> 0" "f_two \<noteq> 0" "f_two \<noteq> f_one"
    by (simp_all add: f_one_def f_two_def)
  from Vector_repr_elided [of sample_repr "\<lparr>cls = Vector, components = [0, f_one, f_two, f_one, f_two, f_one, 0]\<rparr>"]
    Vector_repr_elided [of sample_repr "\<lparr>cls = Vector, components = []\<rparr>"]
  show ?thesis
    by (simp add: sample_repr_def repr_instance_def maxother_def Vector_len_def ne)
qed

subsection \<open>Attribute assignment\<close>

lemma match_args_lower: "name \<in> set match_args \<Longrightarrow> length name = 1 \<and> str_islower name"
  by (auto simp add: match_args_def str_islower_def char_islower_def char_isupper_def)

lemma Vector3_setattr_rejects:
  "length name = 1 \<Longrightarrow> str_islower name \<Longrightarrow> Vector3_setattr self name val = (Some AttributeError, self)"
  by (simp add: Vector3_setattr_def Let_def)

lemma Vector3_setattr_accepts:
  "\<not> (length name = 1 \<and> str_islower name) \<Longrightarrow>
   Vector3_setattr self name val = (None, self\<lparr>obj_dict := (obj_dict self)(name \<mapsto> val)\<rparr>)"
  using match_args_lower [of name]
  by (auto simp add: Vector3_setattr_def object_setattr_def Let_def)

lemma new_object_dict:
  "new_object c xs = \<lparr>obj_cls = c, obj_dict = [''_components'' \<mapsto> PyArray xs]\<rparr>"
  by (simp add: new_object_def py_setattr_def Vector3_setattr_def object_setattr_def)

text \<open>
  On \<open>Vector3\<close> and \<open>Vector4\<close>, assigning to a name that is one lower-case letter raises
  AttributeError and leaves the instance as it was; any other name is bound in the instance.
\<close>

lemma Vector3_setattr_single_lowercase:
  assumes "obj_cls self = Vector3 \<or> obj_cls self = Vector4"
  shows "(length name = 1 \<and> str_islower name \<longrightarrow> py_setattr self name val = (Some AttributeError, self)) \<and>
         (\<not> (length name = 1 \<and> str_islower name) \<longrightarrow>
            py_setattr self name val = (None, self\<lparr>obj_dict := (obj_dict self)(name \<mapsto> val)\<rparr>))"
  using assms by (auto simp add: py_setattr_def Vector3_setattr_rejects Vector3_setattr_accepts)

text \<open>
  C5 on the final class. \<open>Vector\<close> defines no \<open>__setattr__\<close>: on \<open>v = Vector([0.0, 1.0, 2.0])\<close>
  the assignment \<open>v.x = 10\<close> raises nothing and binds \<open>x\<close> in the instance, next to the
  unchanged \<open>_components\<close>, although \<open>x\<close> is a single lower-case letter.
\<close>

theorem Vector_setattr_x_accepted:
  "py_setattr (new_object Vector [0, f_one, f_two]) ''x'' (PyItem (IInt 10)) =
     (None, \<lparr>obj_cls = Vector,
             obj_dict = [''_components'' \<mapsto> PyArray [0, f_one, f_two], ''x'' \<mapsto> PyItem (IInt 10)]\<rparr>) \<and>
   length ''x'' = 1 \<and> str_islower ''x''"
  by (simp add: new_object_dict py_setattr_def object_setattr_def str_islower_def char_islower_def
      char_isupper_def)

end
